theory Spec2Isabelle
  imports Main "HOL-Library.Word"
begin

unbundle bit_operations_syntax

section \<open>Goroutine identifier resolution (package kit/runtime/goroutine)\<close>

text \<open>
  Go values are modelled as follows: a Go \<open>string\<close> or \<open>[]byte\<close> is a \<open>string\<close>
  (a list of 8-bit characters), \<open>int64\<close> and \<open>uint64\<close> are \<open>64 word\<close>, a \<open>byte\<close> is
  \<open>8 word\<close>, \<open>int\<close> indices are \<open>int\<close>. A run-time panic is the left injection of a sum.
\<close>

type_synonym int64 = "64 word"
type_synonym uint64 = "64 word"
type_synonym byte = "8 word"

datatype panic = SliceBounds

subsection \<open>Go built-ins and standard-library functions used by the package\<close>

text \<open>Slice expressions \<open>s[lo:]\<close> and \<open>s[:hi]\<close>: out-of-range bounds panic. The upper
  bound of \<open>s[:hi]\<close> is checked against the capacity in Go; every slice taken here has
  its capacity at least its length, and the bounds used never exceed the length, so the
  length is used.\<close>

definition slice_from :: "'a list \<Rightarrow> int \<Rightarrow> panic + 'a list" where
  "slice_from s lo = (if lo < 0 \<or> int (length s) < lo then Inl SliceBounds
                      else Inr (drop (nat lo) s))"

definition slice_to :: "'a list \<Rightarrow> int \<Rightarrow> panic + 'a list" where
  "slice_to s hi = (if hi < 0 \<or> int (length s) < hi then Inl SliceBounds
                    else Inr (take (nat hi) s))"

text \<open>\<open>bytes.IndexByte\<close>: index of the first occurrence of the byte, \<open>-1\<close> when absent.\<close>

fun IndexByte :: "string \<Rightarrow> char \<Rightarrow> int" where
  "IndexByte [] c = -1"
| "IndexByte (x # xs) c =
     (if x = c then 0
      else (let i = IndexByte xs c in if i < 0 then -1 else i + 1))"

text \<open>\<open>strconv.ParseUint(s, 10, 64)\<close> and \<open>strconv.ParseInt(s, 10, 64)\<close>. The result is
  the pair of the value and the error, as in Go. With base 10 the underscore case of
  base 0 does not apply; a letter is a digit of value 10 or more and is refused by the
  comparison with the base; an overflow ends the loop with the largest value and a
  range error before the rest of the string is looked at.\<close>

datatype num_error = ErrSyntax | ErrRange

definition lower :: "byte \<Rightarrow> byte" where
  "lower c = c OR 0x20"

definition cutoff10 :: uint64 where
  "cutoff10 = 1844674407370955162"

definition maxVal64 :: uint64 where
  "maxVal64 = 18446744073709551615"

fun ParseUint_loop :: "uint64 \<Rightarrow> string \<Rightarrow> uint64 \<times> num_error option" where
  "ParseUint_loop n [] = (n, None)"
| "ParseUint_loop n (ch # cs) =
     (let c = (of_char ch :: byte) in
      if 0x30 \<le> c \<and> c \<le> 0x39 \<or> 0x61 \<le> lower c \<and> lower c \<le> 0x7A then
        (let d = (if 0x30 \<le> c \<and> c \<le> 0x39 then c - 0x30 else lower c - 0x61 + 10) in
         if 10 \<le> d then (0, Some ErrSyntax)
         else if cutoff10 \<le> n then (maxVal64, Some ErrRange)
         else (let n' = n * 10; n1 = n' + ucast d in
               if n1 < n' \<or> maxVal64 < n1 then (maxVal64, Some ErrRange)
               else ParseUint_loop n1 cs))
      else (0, Some ErrSyntax))"

definition ParseUint :: "string \<Rightarrow> uint64 \<times> num_error option" where
  "ParseUint s = (if s = [] then (0, Some ErrSyntax) else ParseUint_loop 0 s)"

definition ParseInt :: "string \<Rightarrow> int64 \<times> num_error option" where
  "ParseInt s =
     (if s = [] then (0, Some ErrSyntax)
      else
        (let neg = (hd s = CHR ''-'');
             s1 = (if hd s = CHR ''+'' \<or> hd s = CHR ''-'' then tl s else s);
             (un, err) = ParseUint s1;
             cutoff = (9223372036854775808 :: uint64)
         in if err = Some ErrSyntax then (0, err)
            else if \<not> neg \<and> cutoff \<le> un then (cutoff - 1, Some ErrRange)
            else if neg \<and> cutoff < un then (- cutoff, Some ErrRange)
            else (if neg then - un else un, None)))"

subsection \<open>The slow-path parser\<close>

text \<open>\<open>extractGID\<close>: drop the first \<open>len("goroutine ")\<close> bytes, cut at the first space,
  parse the span in base 10 and ignore the parse error.\<close>

definition extractGID :: "string \<Rightarrow> panic + int64" where
  "extractGID s =
     (case slice_from s (int (length ''goroutine '')) of
        Inl p \<Rightarrow> Inl p
      | Inr s1 \<Rightarrow>
          (case slice_to s1 (IndexByte s1 CHR '' '') of
             Inl p \<Rightarrow> Inl p
           | Inr s2 \<Rightarrow> Inr (fst (ParseInt s2))))"

subsection \<open>The version key and the offset table (goid\_offset.go, amd64 builds)\<close>

text \<open>\<open>strings.Split(s, ".")\<close>: cut at every dot, as the library's loop does (find the
  next separator, emit the part before it, continue after it). The result has as many
  elements as it has capacity.\<close>

lemma IndexByte_nonneg_nonempty: "0 \<le> IndexByte s c \<Longrightarrow> s \<noteq> []"
  by (cases s) auto

function Split_dot :: "string \<Rightarrow> string list" where
  "Split_dot s =
     (let m = IndexByte s CHR ''.'' in
      if m < 0 then [s] else take (nat m) s # Split_dot (drop (nat m + 1) s))"
  by pat_completeness auto
termination
proof (relation "measure length")
  show "wf (measure length)" by simp
next
  fix s :: string and x :: int
  assume "x = IndexByte s CHR ''.''" and "\<not> x < 0"
  then have "s \<noteq> []" using IndexByte_nonneg_nonempty [of s "CHR ''.''"] by simp
  then show "(drop (nat x + 1) s, s) \<in> measure length" by simp
qed

declare Split_dot.simps [simp del]

text \<open>\<open>strings.Join(parts, ".")\<close>.\<close>

fun Join_dot :: "string list \<Rightarrow> string" where
  "Join_dot [] = []"
| "Join_dot [x] = x"
| "Join_dot (x # y # ys) = x @ ''.'' @ Join_dot (y # ys)"

text \<open>The table \<open>offsetDict\<close>; indexing a Go map with an absent key gives the zero value.\<close>

definition offsetDict :: "string \<rightharpoonup> int64" where
  "offsetDict = map_of
     [(''go1.4'', 128), (''go1.5'', 184), (''go1.6'', 192), (''go1.7'', 192),
      (''go1.8'', 192), (''go1.9'', 152), (''go1.10'', 152), (''go1.11'', 152),
      (''go1.12'', 152), (''go1.13'', 152), (''go1.14'', 152), (''go1.15'', 152),
      (''go1.16'', 152), (''go1.17'', 152), (''go1.18'', 152), (''go1.19'', 152),
      (''go1.20'', 152), (''go1.21'', 152), (''go1.22'', 152), (''go1.23'', 160),
      (''go1.24'', 160), (''go1.25'', 152)]"

definition map_index :: "(string \<rightharpoonup> int64) \<Rightarrow> string \<Rightarrow> int64" where
  "map_index m k = (case m k of None \<Rightarrow> 0 | Some v \<Rightarrow> v)"

text \<open>The key computed by the initialiser of \<open>offset\<close>:
  \<open>strings.Join(strings.Split(runtime.Version(), ".")[:2], ".")\<close>.\<close>

definition version_key :: "string \<Rightarrow> panic + string" where
  "version_key ver =
     (case slice_to (Split_dot ver) 2 of
        Inl p \<Rightarrow> Inl p
      | Inr parts \<Rightarrow> Inr (Join_dot parts))"

text \<open>The initialiser of the package variable \<open>offset\<close>, run once when the package is
  initialised; a panic there ends the process before any call.\<close>

definition offset_init :: "string \<Rightarrow> panic + int64" where
  "offset_init ver =
     (case version_key ver of
        Inl p \<Rightarrow> Inl p
      | Inr k \<Rightarrow> Inr (map_index offsetDict k))"

text \<open>The spec's words for the key: the version string truncated to its first two
  dot-separated components, joined by a dot.\<close>

definition major_minor :: "string \<Rightarrow> string" where
  "major_minor ver = Join_dot (take 2 (Split_dot ver))"

subsection \<open>The host runtime\<close>

text \<open>What the package consumes from the Go runtime, which is outside the repository:
  the version string (\<open>runtime.Version()\<close>), the thread-local pointer to the running
  goroutine's \<open>g\<close> (\<open>get_tls\<close>/\<open>g(CX)\<close> on amd64, register \<open>g\<close> on arm64), memory read
  by 64-bit loads, and \<open>runtime.Stack\<close>. Field \<open>goid_at\<close> is the byte offset at which
  this runtime keeps \<open>goid\<close> inside \<open>g\<close>; \<open>trace\<close> is the text that follows the identifier
  in the k-th snapshot (status and frames, which change from call to call);
  \<open>stack_calls\<close> logs the requests made to \<open>runtime.Stack\<close> (buffer length and the
  \<open>all\<close> flag).\<close>

record host =
  version :: string
  gptr :: "64 word"
  mem :: "64 word \<Rightarrow> 64 word"
  goid_at :: "64 word"
  trace :: "nat \<Rightarrow> string"
  stack_calls :: "(nat \<times> bool) list"

definition goid :: "host \<Rightarrow> 64 word" where
  "goid h = mem h (gptr h + goid_at h)"

text \<open>The runtime prints an unsigned integer in decimal, least significant digit last.\<close>

fun dec :: "nat \<Rightarrow> string" where
  "dec n = (if n < 10 then [char_of (48 + n)]
            else dec (n div 10) @ [char_of (48 + n mod 10)])"

declare dec.simps [simp del]

text \<open>The snapshot of the calling goroutine starts with the header
  \<open>goroutine <goid> [<status>]:\<close>; \<open>runtime.Stack\<close> copies as much of the snapshot as
  fits into the buffer and returns the number of bytes written.\<close>

definition snapshot :: "host \<Rightarrow> string" where
  "snapshot h = ''goroutine '' @ dec (unat (goid h)) @ '' ['' @ trace h (length (stack_calls h))"

definition runtime_Stack :: "string \<Rightarrow> bool \<Rightarrow> host \<Rightarrow> (string \<times> int) \<times> host" where
  "runtime_Stack buf all h =
     (let n = min (length buf) (length (snapshot h)) in
      ((take n (snapshot h) @ drop n buf, int n),
       h\<lparr>stack_calls := stack_calls h @ [(length buf, all)]\<rparr>))"

subsection \<open>The slow path\<close>

definition initialBufferSize :: nat where
  "initialBufferSize = 128"

definition getGoIDSlow :: "host \<Rightarrow> (panic + int64) \<times> host" where
  "getGoIDSlow h =
     (let buf = replicate initialBufferSize (CHR 0x00);
          stackBytes = buf;
          ((stackBytes', n), h') = runtime_Stack stackBytes False h
      in case slice_to stackBytes' n of
           Inl p \<Rightarrow> (Inl p, h')
         | Inr stackBytes'' \<Rightarrow> (extractGID stackBytes'', h'))"

definition GetGoIDSlow :: "host \<Rightarrow> (panic + int64) \<times> host" where
  "GetGoIDSlow h = getGoIDSlow h"

subsection \<open>Struct layout of the declarations of \<open>g\<close> (arm64 builds)\<close>

text \<open>Sizes and alignments of the 64-bit targets: \<open>uintptr\<close> and \<open>int64\<close> are 8 bytes,
  \<open>uint32\<close> is 4, a slice header is three words. A field starts at the next multiple of
  its alignment; a struct is aligned as its most aligned field and its size is rounded
  up to that alignment.\<close>

datatype ty = Uintptr | Uint32 | Int64 | SliceOf ty | Struct "(string \<times> ty) list"

definition align_up :: "nat \<Rightarrow> nat \<Rightarrow> nat" where
  "align_up n a = ((n + a - 1) div a) * a"

fun struct_end :: "nat \<Rightarrow> (nat \<times> nat) list \<Rightarrow> nat" where
  "struct_end off [] = off"
| "struct_end off ((sz, al) # fs) = struct_end (align_up off al + sz) fs"

fun layout :: "ty \<Rightarrow> nat \<times> nat" where
  "layout Uintptr = (8, 8)"
| "layout Uint32 = (4, 4)"
| "layout Int64 = (8, 8)"
| "layout (SliceOf t) = (24, 8)"
| "layout (Struct fs) =
     (let ls = map (\<lambda>f. layout (snd f)) fs;
          al = fold max (map snd ls) 1
      in (align_up (struct_end 0 ls) al, al))"

fun offsetof_from :: "nat \<Rightarrow> (string \<times> ty) list \<Rightarrow> string \<Rightarrow> nat option" where
  "offsetof_from off [] name = None"
| "offsetof_from off (f # fs) name =
     (let start = align_up off (snd (layout (snd f))) in
      if fst f = name then Some start
      else offsetof_from (start + fst (layout (snd f))) fs name)"

definition offsetof :: "(string \<times> ty) list \<Rightarrow> string \<Rightarrow> nat option" where
  "offsetof fs name = offsetof_from 0 fs name"

definition stack_ty :: ty where
  "stack_ty = Struct [(''lo'', Uintptr), (''hi'', Uintptr)]"

text \<open>runtime\_go1.25.go\<close>

definition gobuf_go1_25 :: ty where
  "gobuf_go1_25 = Struct [(''sp'', Uintptr), (''pc'', Uintptr), (''g'', Uintptr),
     (''ctxt'', Uintptr), (''lr'', Uintptr), (''bp'', Uintptr)]"

definition g_go1_25 :: "(string \<times> ty) list" where
  "g_go1_25 = [(''stack'', stack_ty), (''stackguard0'', Uintptr), (''stackguard1'', Uintptr),
     (''_panic'', Uintptr), (''_defer'', Uintptr), (''m'', Uintptr),
     (''sched'', gobuf_go1_25),
     (''syscallsp'', Uintptr), (''syscallpc'', Uintptr), (''syscallbp'', Uintptr),
     (''stktopsp'', Uintptr), (''param'', Uintptr),
     (''atomicstatus'', Uint32), (''stackLock'', Uint32), (''goid'', Int64)]"

text \<open>runtime\_go1.6.go and the go1.5 declarations share \<open>gobuf\<close>.\<close>

definition gobuf_go1_5 :: ty where
  "gobuf_go1_5 = Struct [(''sp'', Uintptr), (''pc'', Uintptr), (''g'', Uintptr),
     (''ctxt'', Uintptr), (''ret'', Uintptr), (''lr'', Uintptr), (''bp'', Uintptr)]"

definition g_go1_6 :: "(string \<times> ty) list" where
  "g_go1_6 = [(''stack'', stack_ty), (''stackguard0'', Uintptr), (''stackguard1'', Uintptr),
     (''_panic'', Uintptr), (''_defer'', Uintptr), (''m'', Uintptr),
     (''stackAlloc'', Uintptr), (''sched'', gobuf_go1_5),
     (''syscallsp'', Uintptr), (''syscallpc'', Uintptr),
     (''stkbar'', SliceOf Uintptr), (''stkbarPos'', Uintptr),
     (''stktopsp'', Uintptr), (''param'', Uintptr),
     (''atomicstatus'', Uint32), (''stackLock'', Uint32), (''goid'', Int64)]"

definition g_go1_5 :: "(string \<times> ty) list" where
  "g_go1_5 = [(''stack'', stack_ty), (''stackguard0'', Uintptr), (''stackguard1'', Uintptr),
     (''_panic'', Uintptr), (''_defer'', Uintptr), (''m'', Uintptr),
     (''stackAlloc'', Uintptr), (''sched'', gobuf_go1_5),
     (''syscallsp'', Uintptr), (''syscallpc'', Uintptr),
     (''stkbar'', SliceOf Uintptr), (''stkbarPos'', Uintptr), (''param'', Uintptr),
     (''atomicstatus'', Uint32), (''stackLock'', Uint32), (''goid'', Int64)]"

definition g_gccgo :: "(string \<times> ty) list" where
  "g_gccgo = [(''_panic'', Uintptr), (''_defer'', Uintptr), (''m'', Uintptr),
     (''syscallsp'', Uintptr), (''syscallpc'', Uintptr), (''param'', Uintptr),
     (''atomicstatus'', Uint32), (''goid'', Int64)]"

subsection \<open>Build constraints\<close>

text \<open>A build is a target operating system and architecture, a compiler and a Go
  release 1.\<open>go_minor\<close>. A \<open>//go:build\<close> line is a Boolean expression over tags; an
  operating-system tag holds when it is the target's, likewise an architecture or
  compiler tag, and \<open>go1.N\<close> holds for every release from 1.N on.\<close>

record build =
  goos :: string
  goarch :: string
  compiler :: string
  go_minor :: nat

datatype tag = Os string | Arch string | Compiler string | Go1 nat

datatype constr = Tag tag | Not constr | And constr constr

fun tag_holds :: "build \<Rightarrow> tag \<Rightarrow> bool" where
  "tag_holds b (Os s) = (goos b = s)"
| "tag_holds b (Arch s) = (goarch b = s)"
| "tag_holds b (Compiler s) = (compiler b = s)"
| "tag_holds b (Go1 n) = (n \<le> go_minor b)"

fun holds :: "build \<Rightarrow> constr \<Rightarrow> bool" where
  "holds b (Tag t) = tag_holds b t"
| "holds b (Not c) = (\<not> holds b c)"
| "holds b (And c d) = (holds b c \<and> holds b d)"

text \<open>The four files that define \<open>GetGoID\<close>, with their constraints:
  \<open>!arm64 && !amd64\<close>, \<open>!windows && arm64\<close>, \<open>windows && arm64\<close>, \<open>amd64\<close>.\<close>

datatype goid_file = Goid_generic | Goid_arm64 | Goid_windows_arm64 | Goid_amd64

fun goid_constr :: "goid_file \<Rightarrow> constr" where
  "goid_constr Goid_generic = And (Not (Tag (Arch ''arm64''))) (Not (Tag (Arch ''amd64'')))"
| "goid_constr Goid_arm64 = And (Not (Tag (Os ''windows''))) (Tag (Arch ''arm64''))"
| "goid_constr Goid_windows_arm64 = And (Tag (Os ''windows'')) (Tag (Arch ''arm64''))"
| "goid_constr Goid_amd64 = Tag (Arch ''amd64'')"

definition goid_files :: "goid_file list" where
  "goid_files = [Goid_generic, Goid_arm64, Goid_windows_arm64, Goid_amd64]"

definition GetGoID_linked :: "build \<Rightarrow> goid_file list" where
  "GetGoID_linked b = filter (\<lambda>f. holds b (goid_constr f)) goid_files"

text \<open>The files that declare \<open>g\<close>: \<open>gc && go1.25 && arm64\<close>,
  \<open>gc && go1.6 && !go1.9 && arm64\<close>, \<open>go1.5 && !go1.6 && arm64\<close>,
  \<open>!gc && gccgo && go1.8 && arm64\<close>. The go1.25 file has no upper bound on the
  release, so it is the one compiled by every later release. The declarations for
  the releases in between are in files of their own; \<open>GetGoID\<close> on arm64 below takes
  the declaration that was compiled in from the package.\<close>

definition g_files :: "(constr \<times> (string \<times> ty) list) list" where
  "g_files =
     [(And (Tag (Compiler ''gc'')) (And (Tag (Go1 25)) (Tag (Arch ''arm64''))), g_go1_25),
      (And (Tag (Compiler ''gc''))
         (And (Tag (Go1 6)) (And (Not (Tag (Go1 9))) (Tag (Arch ''arm64'')))), g_go1_6),
      (And (Tag (Go1 5)) (And (Not (Tag (Go1 6))) (Tag (Arch ''arm64''))), g_go1_5),
      (And (Not (Tag (Compiler ''gc'')))
         (And (Tag (Compiler ''gccgo'')) (And (Tag (Go1 8)) (Tag (Arch ''arm64'')))), g_gccgo)]"

definition g_linked :: "build \<Rightarrow> (string \<times> ty) list list" where
  "g_linked b = map snd (filter (\<lambda>f. holds b (fst f)) g_files)"

subsection \<open>The fast paths and the public resolver\<close>

text \<open>What a linked package holds besides code: the package variable \<open>offset\<close>
  (amd64 builds, set by its initialiser) and the declaration of \<open>g\<close> that was compiled in
  (arm64 builds).\<close>

record pkg =
  offset :: int64
  g_decl :: "(string \<times> ty) list"

definition Offset :: "pkg \<Rightarrow> int64" where
  "Offset p = offset p"

text \<open>amd64, in assembly: \<open>get_tls(CX); MOVQ g(CX), AX; MOVQ offset(SB), BX;
  LEAQ 0(AX)(BX*1), DX; MOVQ (DX), AX; MOVQ AX, ret+0(FP)\<close>.\<close>

definition GetGoID_amd64 :: "pkg \<Rightarrow> host \<Rightarrow> int64" where
  "GetGoID_amd64 p h =
     (let ax = gptr h;
          bx = offset p;
          dx = 0 + ax + bx * 1;
          ax = mem h dx
      in ax)"

text \<open>arm64 except Windows: \<open>getg().goid\<close>, a load at the field's offset in the
  declaration of \<open>g\<close> compiled in; without a field \<open>goid\<close> the file does not compile.\<close>

definition getg :: "host \<Rightarrow> 64 word" where
  "getg h = gptr h"

definition GetGoID_arm64 :: "pkg \<Rightarrow> host \<Rightarrow> int64 option" where
  "GetGoID_arm64 p h =
     (case offsetof (g_decl p) ''goid'' of
        None \<Rightarrow> None
      | Some off \<Rightarrow> Some (mem h (getg h + of_nat off)))"

fun GetGoID_body :: "goid_file \<Rightarrow> pkg \<Rightarrow> host \<Rightarrow> ((panic + int64) \<times> host) option" where
  "GetGoID_body Goid_generic p h = Some (getGoIDSlow h)"
| "GetGoID_body Goid_arm64 p h = map_option (\<lambda>v. (Inr v, h)) (GetGoID_arm64 p h)"
| "GetGoID_body Goid_windows_arm64 p h = Some (getGoIDSlow h)"
| "GetGoID_body Goid_amd64 p h = Some (Inr (GetGoID_amd64 p h), h)"

text \<open>\<open>GetGoID\<close> of a build: the body of the one file that is linked; \<open>None\<close> when the
  package does not build (no definition, or more than one).\<close>

definition GetGoID :: "build \<Rightarrow> pkg \<Rightarrow> host \<Rightarrow> ((panic + int64) \<times> host) option" where
  "GetGoID b p h =
     (case GetGoID_linked b of
        [f] \<Rightarrow> GetGoID_body f p h
      | _ \<Rightarrow> None)"

text \<open>The offset that the fast path of a build adds to the pointer to \<open>g\<close>, when the
  build has a fast path.\<close>

definition fast_offset :: "build \<Rightarrow> pkg \<Rightarrow> 64 word option" where
  "fast_offset b p =
     (case GetGoID_linked b of
        [Goid_amd64] \<Rightarrow> Some (offset p)
      | [Goid_arm64] \<Rightarrow> map_option of_nat (offsetof (g_decl p) ''goid'')
      | _ \<Rightarrow> None)"

subsection \<open>Decimal digit spans\<close>

text \<open>A byte is a decimal digit when it lies between \<open>0\<close> and \<open>9\<close>; the value of a
  span of digits is read most significant digit first. These two notions state what
  the parser is expected to return.\<close>

definition is_digit :: "char \<Rightarrow> bool" where
  "is_digit c = (48 \<le> (of_char c :: nat) \<and> (of_char c :: nat) \<le> 57)"

fun digits_val_from :: "nat \<Rightarrow> string \<Rightarrow> nat" where
  "digits_val_from acc [] = acc"
| "digits_val_from acc (c # cs) = digits_val_from (acc * 10 + (of_char c - 48)) cs"

definition digits_val :: "string \<Rightarrow> nat" where
  "digits_val ds = digits_val_from 0 ds"

subsection \<open>Concrete builds, packages and hosts\<close>

text \<open>A goroutine whose \<open>g\<close> lies at address \<open>0x1000\<close>: the first word of \<open>g\<close> (the lower
  stack bound) is \<open>0xC000100000\<close> and the identifier 7 is stored at offset 152.\<close>

definition example_mem :: "64 word \<Rightarrow> 64 word" where
  "example_mem a = (if a = 0x1000 then 0xC000100000 else if a = 0x1098 then 7 else 0)"

definition example_trace :: "nat \<Rightarrow> string" where
  "example_trace k = ''running]:''"

definition host_go1_26 :: host where
  "host_go1_26 = \<lparr>version = ''go1.26.0'', gptr = 0x1000, mem = example_mem, goid_at = 152,
     trace = example_trace, stack_calls = []\<rparr>"

definition host_go1_25 :: host where
  "host_go1_25 = \<lparr>version = ''go1.25.3'', gptr = 0x1000, mem = example_mem, goid_at = 152,
     trace = example_trace, stack_calls = []\<rparr>"

definition amd64_go1_26 :: build where
  "amd64_go1_26 = \<lparr>goos = ''linux'', goarch = ''amd64'', compiler = ''gc'', go_minor = 26\<rparr>"

definition amd64_go1_25 :: build where
  "amd64_go1_25 = \<lparr>goos = ''linux'', goarch = ''amd64'', compiler = ''gc'', go_minor = 25\<rparr>"

definition arm64_go1_26 :: build where
  "arm64_go1_26 = \<lparr>goos = ''linux'', goarch = ''arm64'', compiler = ''gc'', go_minor = 26\<rparr>"

definition riscv64_go1_25 :: build where
  "riscv64_go1_25 = \<lparr>goos = ''linux'', goarch = ''riscv64'', compiler = ''gc'', go_minor = 25\<rparr>"

definition pkg_amd64_go1_26 :: pkg where
  "pkg_amd64_go1_26 = \<lparr>offset = 0, g_decl = []\<rparr>"

definition pkg_amd64_go1_25 :: pkg where
  "pkg_amd64_go1_25 = \<lparr>offset = 152, g_decl = []\<rparr>"

definition pkg_arm64 :: pkg where
  "pkg_arm64 = \<lparr>offset = 0, g_decl = g_go1_25\<rparr>"

text \<open>A build without a fast path declares neither \<open>offset\<close> nor \<open>g\<close>.\<close>

definition pkg_riscv64 :: pkg where
  "pkg_riscv64 = \<lparr>offset = 0, g_decl = []\<rparr>"

section \<open>Properties\<close>

subsection \<open>Helper facts\<close>

lemma goid_constr_amd64:
  "goarch b = ''amd64'' \<Longrightarrow> GetGoID_linked b = [Goid_amd64]"
  by (simp add: GetGoID_linked_def goid_files_def)

lemma goid_constr_arm64:
  "goarch b = ''arm64'' \<Longrightarrow> goos b \<noteq> ''windows'' \<Longrightarrow> GetGoID_linked b = [Goid_arm64]"
  by (simp add: GetGoID_linked_def goid_files_def)

lemma goid_constr_windows_arm64:
  "goarch b = ''arm64'' \<Longrightarrow> goos b = ''windows'' \<Longrightarrow>
     GetGoID_linked b = [Goid_windows_arm64]"
  by (simp add: GetGoID_linked_def goid_files_def)

lemma goid_constr_generic:
  "goarch b \<noteq> ''arm64'' \<Longrightarrow> goarch b \<noteq> ''amd64'' \<Longrightarrow> GetGoID_linked b = [Goid_generic]"
  by (simp add: GetGoID_linked_def goid_files_def)

lemma offsetof_g_go1_25: "offsetof g_go1_25 ''goid'' = Some 152"
  by (simp add: offsetof_def g_go1_25_def stack_ty_def gobuf_go1_25_def align_up_def)

lemma offsetDict_go1_25: "offsetDict ''go1.25'' = Some 152"
  by (simp add: offsetDict_def)

lemma unat_byte_of_char: "unat (of_char c :: byte) = (of_char c :: nat)"
proof -
  have "(of_char c :: byte) = of_nat (of_char c :: nat)"
    by (simp add: of_nat_of_char)
  then have "unat (of_char c :: byte) = (of_char c :: nat) mod 256"
    by (simp add: unat_of_nat)
  then show ?thesis by simp
qed

lemma digit_byte:
  assumes "is_digit c"
  shows "0x30 \<le> (of_char c :: byte)" and "(of_char c :: byte) \<le> 0x39"
    and "unat ((of_char c :: byte) - 0x30) = of_char c - 48"
    and "\<not> 10 \<le> (of_char c :: byte) - 0x30"
proof -
  let ?w = "of_char c :: byte"
  have u: "unat ?w = of_char c" by (rule unat_byte_of_char)
  from assms have r: "48 \<le> unat ?w" "unat ?w \<le> 57" by (simp_all add: u is_digit_def)
  show a: "0x30 \<le> ?w" using r by (simp add: word_le_nat_alt)
  show "?w \<le> 0x39" using r by (simp add: word_le_nat_alt)
  have s: "unat (?w - 0x30) = unat ?w - unat (0x30 :: byte)"
    using a by (simp add: unat_sub)
  then show "unat (?w - 0x30) = of_char c - 48" by (simp add: u)
  show "\<not> 10 \<le> ?w - 0x30" using s r by (simp add: word_le_nat_alt)
qed

lemma digits_val_from_mono: "acc \<le> digits_val_from acc cs"
proof (induction cs arbitrary: acc)
  case Nil then show ?case by simp
next
  case (Cons c cs)
  have "acc \<le> acc * 10 + (of_char c - 48)" by simp
  also have "\<dots> \<le> digits_val_from (acc * 10 + (of_char c - 48)) cs" by (rule Cons.IH)
  finally show ?case by simp
qed

lemma ParseUint_loop_digit_step:
  assumes d: "is_digit c" and b: "unat n * 10 + (of_char c - 48) < 2 ^ 64"
  shows "ParseUint_loop n (c # cs) = ParseUint_loop (of_nat (unat n * 10 + (of_char c - 48))) cs"
proof -
  let ?w = "of_char c :: byte"
  let ?d = "?w - 0x30"
  note db = digit_byte [OF d]
  have "unat ?d < 2 ^ 64"
    using b by (simp add: db(3))
  then have "take_bit 64 (unat ?d) = unat ?d"
    by (rule take_bit_nat_eq_self)
  then have ud: "unat (ucast ?d :: uint64) = of_char c - 48"
    by (simp add: unsigned_ucast_eq db(3))
  have n10: "unat (n * 10) = unat n * 10"
  proof -
    have "unat n * unat (10 :: uint64) < 2 ^ LENGTH(64)" using b by simp
    then have "unat (n * 10) = unat n * unat (10 :: uint64)"
      by (simp only: unat_mult_lem [THEN iffD1])
    then show ?thesis by simp
  qed
  have n1: "unat (n * 10 + ucast ?d) = unat n * 10 + (of_char c - 48)"
  proof -
    have "unat (n * 10) + unat (ucast ?d :: uint64) < 2 ^ LENGTH(64)"
      using b by (simp add: n10 ud)
    then have "unat (n * 10 + ucast ?d) = unat (n * 10) + unat (ucast ?d :: uint64)"
      by (simp only: unat_add_lem [THEN iffD1])
    then show ?thesis by (simp add: n10 ud)
  qed
  have c1: "\<not> cutoff10 \<le> n"
    using b by (simp add: cutoff10_def word_le_nat_alt)
  have c2: "\<not> n * 10 + ucast ?d < n * 10"
    by (simp add: word_less_nat_alt n1 n10)
  have c3: "\<not> maxVal64 < n * 10 + ucast ?d"
    using b by (simp add: maxVal64_def word_less_nat_alt n1)
  have e: "n * 10 + ucast ?d = (of_nat (unat n * 10 + (of_char c - 48)) :: uint64)"
  proof -
    have "unat n * 10 + (of_char c - 48) < 2 ^ LENGTH(64)" using b by simp
    then have "unat (of_nat (unat n * 10 + (of_char c - 48)) :: uint64) =
        unat n * 10 + (of_char c - 48)"
      by (rule of_nat_inverse [OF refl])
    then show ?thesis by (simp only: word_unat_eq_iff n1)
  qed
  show ?thesis
    using db(1,2,4) c1 c2 c3 e by (simp add: Let_def)
qed

lemma ParseUint_loop_digits:
  "\<forall>c\<in>set ds. is_digit c \<Longrightarrow> digits_val_from (unat n) ds < 2 ^ 64 \<Longrightarrow>
     ParseUint_loop n ds = (of_nat (digits_val_from (unat n) ds), None)"
proof (induction ds arbitrary: n)
  case Nil
  then show ?case by simp
next
  case (Cons c cs)
  let ?m = "unat n * 10 + (of_char c - 48)"
  have d: "is_digit c" using Cons.prems(1) by simp
  have "?m \<le> digits_val_from ?m cs" by (rule digits_val_from_mono)
  then have b: "?m < 2 ^ 64" using Cons.prems(2) by simp
  have "?m < 2 ^ LENGTH(64)" using b by simp
  then have u: "unat (of_nat ?m :: uint64) = ?m"
    by (rule of_nat_inverse [OF refl])
  have "ParseUint_loop n (c # cs) = ParseUint_loop (of_nat ?m) cs"
    by (rule ParseUint_loop_digit_step [OF d b])
  also have "\<dots> = (of_nat (digits_val_from (unat (of_nat ?m :: uint64)) cs), None)"
  proof (rule Cons.IH)
    show "\<forall>c\<in>set cs. is_digit c" using Cons.prems(1) by simp
    show "digits_val_from (unat (of_nat ?m :: uint64)) cs < 2 ^ 64"
      using Cons.prems(2) by (simp only: u digits_val_from.simps)
  qed
  finally show ?case by (simp only: u digits_val_from.simps)
qed


lemma ParseInt_digits:
  assumes ne: "ds \<noteq> []" and dg: "\<forall>c\<in>set ds. is_digit c" and b: "digits_val ds < 2 ^ 63"
  shows "ParseInt ds = (of_nat (digits_val ds), None)"
proof -
  from ne obtain c cs where ds: "ds = c # cs" by (cases ds) auto
  have "is_digit c" using dg ds by simp
  then have h: "hd ds \<noteq> CHR ''+''" "hd ds \<noteq> CHR ''-''"
    by (auto simp: ds is_digit_def)
  have "digits_val_from (unat (0 :: uint64)) ds < 2 ^ 64"
    using b by (simp add: digits_val_def)
  then have "ParseUint_loop 0 ds = (of_nat (digits_val_from (unat (0 :: uint64)) ds), None)"
    by (rule ParseUint_loop_digits [OF dg])
  then have pu: "ParseUint ds = (of_nat (digits_val ds), None)"
    using ne by (simp add: ParseUint_def digits_val_def)
  have "digits_val ds < 2 ^ LENGTH(64)" using b by simp
  then have "unat (of_nat (digits_val ds) :: uint64) = digits_val ds"
    by (rule of_nat_inverse [OF refl])
  then have "\<not> (9223372036854775808 :: uint64) \<le> of_nat (digits_val ds)"
    using b by (simp only: word_le_nat_alt) simp
  then show ?thesis
    using ne h by (simp add: ParseInt_def pu)
qed

lemma ParseUint_loop_nondigit:
  assumes "\<not> is_digit c"
  shows "ParseUint_loop n (c # cs) = (0, Some ErrSyntax)"
proof -
  let ?w = "of_char c :: byte"
  have u: "unat ?w = of_char c" by (rule unat_byte_of_char)
  have nd: "\<not> (0x30 \<le> ?w \<and> ?w \<le> 0x39)"
    using assms by (simp add: word_le_nat_alt u is_digit_def)
  have "10 \<le> lower ?w - 0x61 + 10" if l: "0x61 \<le> lower ?w" "lower ?w \<le> 0x7A"
  proof -
    from l have r: "97 \<le> unat (lower ?w)" "unat (lower ?w) \<le> 122"
      by (simp_all add: word_le_nat_alt)
    have s: "unat (lower ?w - 0x61) = unat (lower ?w) - unat (0x61 :: byte)"
      using l(1) by (simp add: unat_sub)
    have "unat (lower ?w - 0x61) + unat (10 :: byte) < 2 ^ LENGTH(8)"
      using r s by simp
    then have "unat (lower ?w - 0x61 + 10) = unat (lower ?w - 0x61) + unat (10 :: byte)"
      by (simp only: unat_add_lem [THEN iffD1])
    then show ?thesis by (simp add: word_le_nat_alt)
  qed
  then show ?thesis using nd by (auto simp: Let_def)
qed

lemma ParseInt_no_digit:
  assumes "\<forall>c\<in>set s. \<not> is_digit c"
  shows "ParseInt s = (0, Some ErrSyntax)"
proof (cases s)
  case Nil
  then show ?thesis by (simp add: ParseInt_def)
next
  case (Cons c cs)
  let ?s1 = "if hd s = CHR ''+'' \<or> hd s = CHR ''-'' then tl s else s"
  have nd: "\<forall>c\<in>set ?s1. \<not> is_digit c"
    using assms Cons by auto
  have "ParseUint ?s1 = (0, Some ErrSyntax)"
  proof (cases ?s1)
    case Nil
    then show ?thesis by (simp add: ParseUint_def)
  next
    case (Cons d ds)
    then have "\<not> is_digit d" using nd by simp
    then show ?thesis
      using Cons by (simp add: ParseUint_def ParseUint_loop_nondigit del: ParseUint_loop.simps)
  qed
  then show ?thesis using Cons by (auto simp: ParseInt_def Let_def split: if_splits)
qed

lemma IndexByte_first:
  "c \<notin> set xs \<Longrightarrow> IndexByte (xs @ c # ys) c = int (length xs)"
  by (induction xs) (auto simp: Let_def)

lemma IndexByte_absent: "c \<notin> set xs \<Longrightarrow> IndexByte xs c = -1"
  by (induction xs) (auto simp: Let_def)

lemma extractGID_span:
  assumes "length label = 10" and "CHR '' '' \<notin> set sp"
  shows "extractGID (label @ sp @ CHR '' '' # rest) = Inr (fst (ParseInt sp))"
  using assms by (simp add: extractGID_def slice_from_def slice_to_def IndexByte_first)

lemma extractGID_no_delimiter:
  assumes "length label = 10" and "CHR '' '' \<notin> set rest"
  shows "extractGID (label @ rest) = Inl SliceBounds"
  using assms by (simp add: extractGID_def slice_from_def slice_to_def IndexByte_absent)


lemma digits_val_from_snoc:
  "digits_val_from acc (xs @ [c]) = digits_val_from acc xs * 10 + (of_char c - 48)"
  by (induction xs arbitrary: acc) simp_all

lemma of_char_digit: "k < 10 \<Longrightarrow> (of_char (char_of (48 + k)) :: nat) = 48 + k"
  by simp

lemma is_digit_char_of: "k < 10 \<Longrightarrow> is_digit (char_of (48 + (k :: nat)))"
  by (simp add: is_digit_def)

lemma dec_digits: "\<forall>c\<in>set (dec n). is_digit c"
proof (induction n rule: dec.induct)
  case (1 n)
  show ?case
  proof (cases "n < 10")
    case True
    then show ?thesis by (subst dec.simps) (simp add: is_digit_char_of)
  next
    case False
    have "is_digit (char_of (48 + n mod 10))" by (rule is_digit_char_of) simp
    then show ?thesis using False "1.IH" by (subst dec.simps) simp
  qed
qed

lemma dec_nonempty: "dec n \<noteq> []"
  by (subst dec.simps) simp

lemma digits_val_dec: "digits_val (dec n) = n"
proof (induction n rule: dec.induct)
  case (1 n)
  show ?case
  proof (cases "n < 10")
    case True
    then show ?thesis by (subst dec.simps) (simp add: digits_val_def)
  next
    case False
    have m: "(of_char (char_of (48 + n mod 10)) :: nat) = 48 + n mod 10"
      by (rule of_char_digit) simp
    have "digits_val (dec n) = digits_val (dec (n div 10)) * 10 + n mod 10"
      using False by (subst dec.simps) (simp add: digits_val_def digits_val_from_snoc m)
    then show ?thesis using False "1.IH" by simp
  qed
qed

lemma length_dec: "0 < k \<Longrightarrow> n < 10 ^ k \<Longrightarrow> length (dec n) \<le> k"
proof (induction n arbitrary: k rule: dec.induct)
  case (1 n)
  show ?case
  proof (cases "n < 10")
    case True
    then show ?thesis using "1.prems" by (subst dec.simps) simp
  next
    case False
    with "1.prems" obtain j where k: "k = Suc j" by (cases k) auto
    with False "1.prems" have "0 < j" by (cases j) auto
    moreover have "n div 10 < 10 ^ j" using "1.prems"(2) k by (simp add: less_mult_imp_div_less)
    ultimately have "length (dec (n div 10)) \<le> j" using False by (intro "1.IH") simp_all
    then show ?thesis using False k by (subst dec.simps) simp
  qed
qed

lemma length_dec_unat: "length (dec (unat (w :: 64 word))) \<le> 20"
proof -
  have "unat w < 2 ^ 64" using unsigned_less [of w] by simp
  then have "unat w < 10 ^ 20" by simp
  then show ?thesis by (intro length_dec) simp_all
qed

lemma space_not_digit: "is_digit c \<Longrightarrow> c \<noteq> CHR '' ''"
  by (auto simp: is_digit_def)

lemma dec_no_space: "CHR '' '' \<notin> set (dec n)"
  using dec_digits [of n] space_not_digit by blast

lemma getGoIDSlow_unfold:
  "getGoIDSlow h =
     (extractGID (take 128 (snapshot h)),
      h\<lparr>stack_calls := stack_calls h @ [(128, False)]\<rparr>)"
proof -
  let ?n = "min 128 (length (snapshot h))"
  have t: "take ?n (snapshot h) = take 128 (snapshot h)"
    by (simp add: min_def)
  have l: "length (take 128 (snapshot h)) = ?n" by simp
  have "slice_to (take ?n (snapshot h) @ drop ?n (replicate 128 (CHR 0x00))) (int ?n)
      = Inr (take 128 (snapshot h))"
    unfolding t by (simp add: slice_to_def min_def)
  then show ?thesis
    by (simp add: getGoIDSlow_def runtime_Stack_def initialBufferSize_def Let_def)
qed

lemma take_snapshot:
  "take 128 (snapshot h) =
     ''goroutine '' @ dec (unat (goid h)) @
       CHR '' '' # take (117 - length (dec (unat (goid h))))
         (CHR ''['' # trace h (length (stack_calls h)))"
proof -
  let ?l = "length (dec (unat (goid h)))"
  have "?l \<le> 20" by (rule length_dec_unat)
  then have "118 - ?l = Suc (117 - ?l)" by arith
  then show ?thesis by (simp add: snapshot_def)
qed

lemma extractGID_snapshot:
  "extractGID (take 128 (snapshot h)) = Inr (fst (ParseInt (dec (unat (goid h)))))"
  unfolding take_snapshot
  by (rule extractGID_span) (simp_all add: dec_no_space)

lemma ParseInt_dec:
  assumes "unat w < 2 ^ 63"
  shows "ParseInt (dec (unat (w :: 64 word))) = (w, None)"
proof -
  have "ParseInt (dec (unat w)) = (of_nat (digits_val (dec (unat w))), None)"
    using assms by (intro ParseInt_digits) (simp_all add: dec_nonempty dec_digits digits_val_dec)
  then show ?thesis by (simp add: digits_val_dec)
qed

lemma GetGoID_linked_cases:
  "GetGoID_linked b =
     [if goarch b = ''amd64'' then Goid_amd64
      else if goarch b = ''arm64''
           then (if goos b = ''windows'' then Goid_windows_arm64 else Goid_arm64)
           else Goid_generic]"
  by (simp add: goid_constr_amd64 goid_constr_arm64 goid_constr_windows_arm64
        goid_constr_generic)

lemma fast_path_value:
  assumes "fast_offset b p = Some off"
  shows "GetGoID b p h = Some (Inr (mem h (gptr h + off)), h)"
  using assms
  by (auto simp: fast_offset_def GetGoID_def GetGoID_linked_cases GetGoID_amd64_def
        GetGoID_arm64_def getg_def split: if_splits option.splits)

lemma slow_path_value:
  "fst (getGoIDSlow h) = Inr (fst (ParseInt (dec (unat (goid h)))))"
  by (simp add: getGoIDSlow_unfold extractGID_snapshot)

lemma slow_path_state:
  "snd (getGoIDSlow h) = h\<lparr>stack_calls := stack_calls h @ [(128, False)]\<rparr>"
  by (simp add: getGoIDSlow_unfold)

lemma goid_stack_calls [simp]: "goid (h\<lparr>stack_calls := l\<rparr>) = goid h"
  by (simp add: goid_def)

lemma Split_dot_no_dot: "CHR ''.'' \<notin> set s \<Longrightarrow> Split_dot s = [s]"
  by (subst Split_dot.simps) (simp add: IndexByte_absent)

lemma Split_dot_nonempty: "Split_dot s \<noteq> []"
  by (subst Split_dot.simps) (simp add: Let_def)

lemma IndexByte_present: "c \<in> set s \<Longrightarrow> 0 \<le> IndexByte s c"
  by (induction s) (auto simp: Let_def)

lemma Split_dot_two: "CHR ''.'' \<in> set s \<Longrightarrow> 2 \<le> length (Split_dot s)"
proof -
  assume "CHR ''.'' \<in> set s"
  then have "0 \<le> IndexByte s CHR ''.''" by (rule IndexByte_present)
  then have "Split_dot s =
      take (nat (IndexByte s CHR ''.'')) s # Split_dot (drop (nat (IndexByte s CHR ''.'') + 1) s)"
    by (subst Split_dot.simps) (simp add: Let_def)
  then have "length (Split_dot s) =
      Suc (length (Split_dot (drop (nat (IndexByte s CHR ''.'') + 1) s)))"
    by simp
  moreover have "0 < length (Split_dot (drop (nat (IndexByte s CHR ''.'') + 1) s))"
    using Split_dot_nonempty by blast
  ultimately show ?thesis by linarith
qed

lemma version_key_cases:
  "version_key ver =
     (if CHR ''.'' \<in> set ver then Inr (major_minor ver) else Inl SliceBounds)"
proof (cases "CHR ''.'' \<in> set ver")
  case True
  then have "2 \<le> length (Split_dot ver)" by (rule Split_dot_two)
  then show ?thesis using True by (simp add: version_key_def slice_to_def major_minor_def)
next
  case False
  then show ?thesis by (simp add: version_key_def slice_to_def Split_dot_no_dot)
qed

lemma extractGID_no_digits:
  assumes l: "length label = 10" and nd: "\<forall>c\<in>set rest. \<not> is_digit c"
  shows "extractGID (label @ rest) = (if CHR '' '' \<in> set rest then Inr 0 else Inl SliceBounds)"
proof (cases "CHR '' '' \<in> set rest")
  case True
  then obtain sp tl where r: "rest = sp @ CHR '' '' # tl" and ns: "CHR '' '' \<notin> set sp"
    by (auto dest: split_list_first)
  have "\<forall>c\<in>set sp. \<not> is_digit c" using nd r by simp
  then have "ParseInt sp = (0, Some ErrSyntax)" by (rule ParseInt_no_digit)
  then show ?thesis using True extractGID_span [OF l ns, of tl] by (simp add: r)
next
  case False
  then show ?thesis using extractGID_no_delimiter [OF l] by simp
qed

lemma goid_example_hosts: "goid host_go1_26 = 7" "goid host_go1_25 = 7"
  by (simp_all add: goid_def host_go1_26_def host_go1_25_def example_mem_def)

lemma slow_path_small:
  "unat (goid h) < 2 ^ 63 \<Longrightarrow> fst (getGoIDSlow h) = Inr (goid h)"
  by (simp add: slow_path_value ParseInt_dec)

subsection \<open>Agreement of the two paths\<close>

text \<open>C1: on a build with both paths, \<open>GetGoID\<close> followed by \<open>GetGoIDSlow\<close> on the same
  goroutine should return the same value. On amd64 under the runtime version
  \<open>go1.26.0\<close>, which the table does not list, they do not: the initialiser leaves
  \<open>offset\<close> at 0, the fast path returns the first word of \<open>g\<close>, and the slow path
  returns the identifier 7.\<close>

theorem fast_slow_disagree_unlisted_version:
  "offset_init (version host_go1_26) = Inr (offset pkg_amd64_go1_26) \<and>
   GetGoID amd64_go1_26 pkg_amd64_go1_26 host_go1_26 = Some (Inr 0xC000100000, host_go1_26) \<and>
   fst (GetGoIDSlow host_go1_26) = Inr 7"
proof -
  have a: "offset_init (version host_go1_26) = Inr (offset pkg_amd64_go1_26)"
    by (simp add: host_go1_26_def pkg_amd64_go1_26_def offset_init_def version_key_cases
          major_minor_def Split_dot.simps map_index_def offsetDict_def)
  have "fast_offset amd64_go1_26 pkg_amd64_go1_26 = Some 0"
    by (simp add: fast_offset_def GetGoID_linked_cases amd64_go1_26_def pkg_amd64_go1_26_def)
  then have "GetGoID amd64_go1_26 pkg_amd64_go1_26 host_go1_26 =
      Some (Inr (mem host_go1_26 (gptr host_go1_26 + 0)), host_go1_26)"
    by (rule fast_path_value)
  then have b: "GetGoID amd64_go1_26 pkg_amd64_go1_26 host_go1_26 =
      Some (Inr 0xC000100000, host_go1_26)"
    by (simp add: host_go1_26_def example_mem_def)
  have c: "fst (GetGoIDSlow host_go1_26) = Inr 7"
    by (simp add: GetGoIDSlow_def slow_path_small goid_example_hosts)
  show ?thesis using a b c by simp
qed

text \<open>Where the offset that the fast path adds to the pointer to \<open>g\<close> is the offset at
  which the running runtime keeps \<open>goid\<close>, and the identifier is below \<open>2^63\<close>, the two
  paths agree and return the goroutine's identifier.\<close>

theorem fast_slow_agree:
  assumes "fast_offset b p = Some (goid_at h)" and "unat (goid h) < 2 ^ 63"
  shows "\<exists>h1. GetGoID b p h = Some (Inr (goid h), h1) \<and> fst (GetGoIDSlow h1) = Inr (goid h)"
proof -
  have "GetGoID b p h = Some (Inr (goid h), h)"
    using fast_path_value [OF assms(1), of h] by (simp add: goid_def)
  moreover have "fst (GetGoIDSlow h) = Inr (goid h)"
    using assms(2) by (simp add: GetGoIDSlow_def slow_path_small)
  ultimately show ?thesis by blast
qed

text \<open>This is the case on amd64 under \<open>go1.25.3\<close>, where the table gives 152.\<close>

theorem fast_slow_agree_witness:
  "fast_offset amd64_go1_25 pkg_amd64_go1_25 = Some (goid_at host_go1_25) \<and>
   unat (goid host_go1_25) < 2 ^ 63 \<and>
   (\<exists>h1. GetGoID amd64_go1_25 pkg_amd64_go1_25 host_go1_25 = Some (Inr 7, h1) \<and>
      fst (GetGoIDSlow h1) = Inr 7)"
proof -
  have a: "fast_offset amd64_go1_25 pkg_amd64_go1_25 = Some (goid_at host_go1_25)"
    by (simp add: fast_offset_def GetGoID_linked_cases amd64_go1_25_def pkg_amd64_go1_25_def
          host_go1_25_def)
  have b: "unat (goid host_go1_25) < 2 ^ 63" by (simp add: goid_example_hosts)
  show ?thesis using a b fast_slow_agree [OF a b] by (simp add: goid_example_hosts)
qed

subsection \<open>A version that the table does not list\<close>

text \<open>C2 (amended): for a version string whose major.minor key is not in the table,
  the initialiser of \<open>offset\<close> yields 0 and no panic when the string contains a dot,
  and panics when it contains none; where it yields 0, \<open>GetGoID\<close> on amd64 returns the
  word found at the start of \<open>g\<close>, without any failure.\<close>

theorem unlisted_version_offset:
  assumes "major_minor (version h) \<notin> dom offsetDict"
  shows "offset_init (version h) =
           (if CHR ''.'' \<in> set (version h) then Inr 0 else Inl SliceBounds) \<and>
         (goarch b = ''amd64'' \<and> offset_init (version h) = Inr (offset p) \<longrightarrow>
            GetGoID b p h = Some (Inr (mem h (gptr h)), h))"
proof (intro conjI impI)
  show z: "offset_init (version h) =
      (if CHR ''.'' \<in> set (version h) then Inr 0 else Inl SliceBounds)"
    using assms by (auto simp: offset_init_def version_key_cases map_index_def dom_def)
  assume a: "goarch b = ''amd64'' \<and> offset_init (version h) = Inr (offset p)"
  then have "offset p = 0" using z by (auto split: if_splits)
  then have "fast_offset b p = Some 0"
    using a by (simp add: fast_offset_def GetGoID_linked_cases)
  then show "GetGoID b p h = Some (Inr (mem h (gptr h)), h)"
    using fast_path_value [of b p 0 h] by simp
qed

text \<open>C2 as stated fails on a version string without a dot: its key, the string
  itself, is not in the table, and the initialiser panics instead of yielding 0.\<close>

theorem offset_init_dotless_panics:
  "major_minor ''devel +a1b2c3d'' \<notin> dom offsetDict \<and>
   offset_init ''devel +a1b2c3d'' = Inl SliceBounds"
  by (simp add: offset_init_def version_key_cases major_minor_def Split_dot_no_dot
        offsetDict_def dom_def)

text \<open>C2 (amended) at version \<open>go1.26.0\<close>, whose key \<open>go1.26\<close> is not in the table.\<close>

theorem unlisted_version_offset_witness:
  "major_minor (version host_go1_26) \<notin> dom offsetDict \<and>
   CHR ''.'' \<in> set (version host_go1_26) \<and>
   goarch amd64_go1_26 = ''amd64'' \<and>
   offset_init (version host_go1_26) = Inr (offset pkg_amd64_go1_26) \<and>
   offset_init (version host_go1_26) = Inr 0 \<and>
   GetGoID amd64_go1_26 pkg_amd64_go1_26 host_go1_26 = Some (Inr 0xC000100000, host_go1_26)"
proof -
  have k: "major_minor (version host_go1_26) = ''go1.26''"
    by (simp add: host_go1_26_def major_minor_def Split_dot.simps)
  have a: "major_minor (version host_go1_26) \<notin> dom offsetDict"
    by (simp add: k offsetDict_def dom_def)
  have dot: "CHR ''.'' \<in> set (version host_go1_26)" by (simp add: host_go1_26_def)
  have c: "goarch amd64_go1_26 = ''amd64''" by (simp add: amd64_go1_26_def)
  note u = unlisted_version_offset [OF a, of amd64_go1_26 pkg_amd64_go1_26]
  have z: "offset_init (version host_go1_26) = Inr 0" using u dot by simp
  have d: "offset_init (version host_go1_26) = Inr (offset pkg_amd64_go1_26)"
    using z by (simp add: pkg_amd64_go1_26_def)
  have m: "mem host_go1_26 (gptr host_go1_26) = 0xC000100000"
    by (simp add: host_go1_26_def example_mem_def)
  have "GetGoID amd64_go1_26 pkg_amd64_go1_26 host_go1_26 =
      Some (Inr 0xC000100000, host_go1_26)"
    using u c d m by simp
  then show ?thesis using a dot c d z by simp
qed

subsection \<open>Snapshots without digits\<close>

text \<open>C3 (amended): for a snapshot made of a ten-byte label followed by bytes none of
  which is a digit, \<open>extractGID\<close> returns 0 when a space follows the label somewhere,
  and panics (slice bound \<open>-1\<close>) when no space follows it. On the snapshots the runtime
  produces, \<open>getGoIDSlow\<close> never panics.\<close>

theorem extractGID_no_digits_zero:
  assumes "length label = 10" and "\<forall>c\<in>set rest. \<not> is_digit c"
  shows "extractGID (label @ rest) =
           (if CHR '' '' \<in> set rest then Inr 0 else Inl SliceBounds) \<and>
         (\<exists>v. fst (getGoIDSlow h) = Inr v)"
  using extractGID_no_digits [OF assms] by (simp add: slow_path_value)

text \<open>C3 as stated fails: \<open>goroutine abc\<close> begins with the label and has no digit
  after it, and \<open>extractGID\<close> panics on it.\<close>

theorem extractGID_panics_without_delimiter:
  "extractGID ''goroutine abc'' = Inl SliceBounds"
  by (simp add: extractGID_def slice_from_def slice_to_def)

text \<open>C3 (amended) at the label \<open>goroutine \<close> followed by \<open>[running]: x\<close>.\<close>

theorem extractGID_no_digits_zero_witness:
  "length ''goroutine '' = 10 \<and> \<not> list_ex is_digit ''[running]: x'' \<and>
   extractGID ''goroutine [running]: x'' = Inr 0 \<and>
   (\<exists>v. fst (getGoIDSlow host_go1_25) = Inr v)"
proof -
  have a: "length ''goroutine '' = 10" by simp
  have b: "\<forall>c\<in>set ''[running]: x''. \<not> is_digit c" by (simp add: is_digit_def)
  show ?thesis
    using a b extractGID_no_digits_zero [OF a b, of host_go1_25]
    by (simp add: list_ex_iff)
qed

subsection \<open>Snapshots with a digit span\<close>

text \<open>C4 (amended): for a snapshot made of a ten-byte label (the length of
  \<open>goroutine \<close>; the bytes of the label are not compared), a non-empty span of decimal
  digits whose value is below \<open>2^63\<close>, a space and any remainder, \<open>extractGID\<close> returns
  the value of the digit span.\<close>

theorem extractGID_digits:
  assumes "length label = 10" and "ds \<noteq> []" and "\<forall>c\<in>set ds. is_digit c"
    and "digits_val ds < 2 ^ 63"
  shows "extractGID (label @ ds @ CHR '' '' # remainder) = Inr (of_nat (digits_val ds))"
proof -
  have "CHR '' '' \<notin> set ds" using assms(3) space_not_digit by blast
  then have "extractGID (label @ ds @ CHR '' '' # remainder) = Inr (fst (ParseInt ds))"
    by (rule extractGID_span [OF assms(1)])
  then show ?thesis by (simp add: ParseInt_digits [OF assms(2,3,4)])
qed

text \<open>C4 as stated fails on its own example: ten bytes are dropped from
  \<open>label 42 trailing\<close>, which leaves \<open>railing\<close>; it has no space, and the slice
  expression panics.\<close>

theorem extractGID_label_example_panics:
  "extractGID ''label 42 trailing'' = Inl SliceBounds"
  by (simp add: extractGID_def slice_from_def slice_to_def)

text \<open>C4 (amended) at \<open>goroutine 42 trailing\<close>.\<close>

theorem extractGID_digits_witness:
  "length ''goroutine '' = 10 \<and> ''42'' \<noteq> [] \<and> list_all is_digit ''42'' \<and>
   digits_val ''42'' < 2 ^ 63 \<and> extractGID ''goroutine 42 trailing'' = Inr 42"
proof -
  have a: "length ''goroutine '' = 10" by simp
  have b: "''42'' \<noteq> []" by simp
  have c: "\<forall>c\<in>set ''42''. is_digit c" by (simp add: is_digit_def)
  have d: "digits_val ''42'' < 2 ^ 63" by (simp add: digits_val_def)
  have e: "digits_val ''42'' = 42" by (simp add: digits_val_def)
  show ?thesis
    using a b c d extractGID_digits [OF a b c d, of "''trailing''"]
    by (simp add: e list_all_iff)
qed

subsection \<open>What the fast path loads\<close>

text \<open>C5 (amended): on amd64 \<open>GetGoID\<close> returns the 64-bit integer loaded at the
  pointer to \<open>g\<close> plus the table value for the key of the running version (0 when
  the key is absent), as stored in \<open>offset\<close> by its initialiser; on arm64 other than
  Windows it returns the integer loaded at the pointer to \<open>g\<close> plus the offset of
  field \<open>goid\<close> in the declaration of \<open>g\<close> compiled into the build, and the table is
  not consulted.\<close>

theorem fast_path_reads_at_offset:
  "(goarch b = ''amd64'' \<and> offset_init (version h) = Inr (offset p) \<and>
      version_key (version h) = Inr k \<longrightarrow>
      GetGoID b p h = Some (Inr (mem h (gptr h + map_index offsetDict k)), h)) \<and>
   (goarch b = ''arm64'' \<and> goos b \<noteq> ''windows'' \<and> offsetof (g_decl p) ''goid'' = Some n \<longrightarrow>
      GetGoID b p h = Some (Inr (mem h (gptr h + of_nat n)), h))"
proof (intro conjI impI)
  assume a: "goarch b = ''amd64'' \<and> offset_init (version h) = Inr (offset p) \<and>
      version_key (version h) = Inr k"
  then have "offset p = map_index offsetDict k" by (auto simp: offset_init_def)
  then have "fast_offset b p = Some (map_index offsetDict k)"
    using a by (simp add: fast_offset_def GetGoID_linked_cases)
  then show "GetGoID b p h = Some (Inr (mem h (gptr h + map_index offsetDict k)), h)"
    by (rule fast_path_value)
next
  assume "goarch b = ''arm64'' \<and> goos b \<noteq> ''windows'' \<and> offsetof (g_decl p) ''goid'' = Some n"
  then have "fast_offset b p = Some (of_nat n)"
    by (simp add: fast_offset_def GetGoID_linked_cases)
  then show "GetGoID b p h = Some (Inr (mem h (gptr h + of_nat n)), h)"
    by (rule fast_path_value)
qed

text \<open>C5 as stated fails on arm64: a Go 1.26 build compiles the go1.25 declaration
  of \<open>g\<close>, so \<open>GetGoID\<close> loads at offset 152 and returns 7, while the table value for
  key \<open>go1.26\<close> is 0 and the word at that address is \<open>0xC000100000\<close>.\<close>

theorem arm64_fast_path_ignores_table:
  "g_linked arm64_go1_26 = [g_decl pkg_arm64] \<and>
   version_key (version host_go1_26) = Inr ''go1.26'' \<and>
   GetGoID arm64_go1_26 pkg_arm64 host_go1_26 = Some (Inr 7, host_go1_26) \<and>
   mem host_go1_26 (gptr host_go1_26 + map_index offsetDict ''go1.26'') = 0xC000100000"
proof -
  have a: "g_linked arm64_go1_26 = [g_decl pkg_arm64]"
    by (simp add: g_linked_def g_files_def arm64_go1_26_def pkg_arm64_def)
  have b: "version_key (version host_go1_26) = Inr ''go1.26''"
    by (simp add: host_go1_26_def version_key_cases major_minor_def Split_dot.simps)
  have "fast_offset arm64_go1_26 pkg_arm64 = Some 152"
    by (simp add: fast_offset_def GetGoID_linked_cases arm64_go1_26_def pkg_arm64_def
          offsetof_g_go1_25)
  then have "GetGoID arm64_go1_26 pkg_arm64 host_go1_26 =
      Some (Inr (mem host_go1_26 (gptr host_go1_26 + 152)), host_go1_26)"
    by (rule fast_path_value)
  then have c: "GetGoID arm64_go1_26 pkg_arm64 host_go1_26 = Some (Inr 7, host_go1_26)"
    by (simp add: host_go1_26_def example_mem_def)
  have d: "mem host_go1_26 (gptr host_go1_26 + map_index offsetDict ''go1.26'') = 0xC000100000"
    by (simp add: host_go1_26_def example_mem_def map_index_def offsetDict_def)
  show ?thesis using a b c d by simp
qed

text \<open>C5 (amended) on amd64 under \<open>go1.25.3\<close> and on arm64 with the go1.25
  declaration.\<close>

theorem fast_path_reads_at_offset_witness:
  "goarch amd64_go1_25 = ''amd64'' \<and>
   offset_init (version host_go1_25) = Inr (offset pkg_amd64_go1_25) \<and>
   version_key (version host_go1_25) = Inr ''go1.25'' \<and>
   GetGoID amd64_go1_25 pkg_amd64_go1_25 host_go1_25 = Some (Inr 7, host_go1_25) \<and>
   goarch arm64_go1_26 = ''arm64'' \<and> goos arm64_go1_26 \<noteq> ''windows'' \<and>
   offsetof (g_decl pkg_arm64) ''goid'' = Some 152 \<and>
   GetGoID arm64_go1_26 pkg_arm64 host_go1_26 = Some (Inr 7, host_go1_26)"
proof -
  have a: "goarch amd64_go1_25 = ''amd64''" by (simp add: amd64_go1_25_def)
  have k: "version_key (version host_go1_25) = Inr ''go1.25''"
    by (simp add: host_go1_25_def version_key_cases major_minor_def Split_dot.simps)
  have i: "offset_init (version host_go1_25) = Inr (offset pkg_amd64_go1_25)"
    by (simp add: offset_init_def k map_index_def offsetDict_go1_25 pkg_amd64_go1_25_def)
  have r: "goarch arm64_go1_26 = ''arm64''" "goos arm64_go1_26 \<noteq> ''windows''"
    by (simp_all add: arm64_go1_26_def)
  have o: "offsetof (g_decl pkg_arm64) ''goid'' = Some 152"
    by (simp add: pkg_arm64_def offsetof_g_go1_25)
  have m: "mem host_go1_25 (gptr host_go1_25 + 152) = 7"
    "mem host_go1_26 (gptr host_go1_26 + 152) = 7"
    by (simp_all add: host_go1_25_def host_go1_26_def example_mem_def)
  have "GetGoID amd64_go1_25 pkg_amd64_go1_25 host_go1_25 = Some (Inr 7, host_go1_25)"
    using fast_path_reads_at_offset [of amd64_go1_25 host_go1_25 pkg_amd64_go1_25 "''go1.25''"]
      a i k m by (simp add: map_index_def offsetDict_go1_25)
  moreover have "GetGoID arm64_go1_26 pkg_arm64 host_go1_26 = Some (Inr 7, host_go1_26)"
    using fast_path_reads_at_offset [of arm64_go1_26 host_go1_26 pkg_arm64 _ 152] r o m
    by simp
  ultimately show ?thesis using a i k r o by simp
qed

subsection \<open>One bounded snapshot\<close>

text \<open>C6: a call of \<open>getGoIDSlow\<close> makes exactly one request to \<open>runtime.Stack\<close>, with
  a buffer of 128 bytes and \<open>all = false\<close>, makes no second request, and parses the
  identifier from the bytes written, the first 128 bytes of the snapshot at most.\<close>

theorem getGoIDSlow_one_bounded_snapshot:
  "getGoIDSlow h =
     (extractGID (take 128 (snapshot h)),
      h\<lparr>stack_calls := stack_calls h @ [(128, False)]\<rparr>) \<and>
   initialBufferSize = 128 \<and>
   length (stack_calls (snd (getGoIDSlow h))) = length (stack_calls h) + 1"
  by (simp add: getGoIDSlow_unfold initialBufferSize_def)

subsection \<open>Build-time selection\<close>

text \<open>C7: for every target operating system and architecture exactly one of the four
  files defining \<open>GetGoID\<close> is linked: the constraints \<open>amd64\<close>, \<open>!windows && arm64\<close>,
  \<open>windows && arm64\<close> and \<open>!arm64 && !amd64\<close> exclude each other and cover every
  target. The file is a function of the build alone: no running state enters the
  selection.\<close>

theorem GetGoID_exactly_one_linked:
  "GetGoID_linked b =
     [if goarch b = ''amd64'' then Goid_amd64
      else if goarch b = ''arm64''
           then (if goos b = ''windows'' then Goid_windows_arm64 else Goid_arm64)
           else Goid_generic]"
  by (simp add: goid_constr_amd64 goid_constr_arm64 goid_constr_windows_arm64
        goid_constr_generic)

subsection \<open>The version key\<close>

text \<open>C8 (amended): for a version string that contains a dot, the key used for the
  table lookup is the string's first two dot-separated components joined by a dot;
  for a version string without a dot the initialiser panics. The lookup happens in
  the initialiser of the package variable \<open>offset\<close>; \<open>Offset\<close> and \<open>GetGoID\<close> read that
  variable and do not look at the version again.\<close>

theorem version_key_major_minor:
  "version_key ver =
     (if CHR ''.'' \<in> set ver then Inr (major_minor ver) else Inl SliceBounds) \<and>
   offset_init ver =
     (if CHR ''.'' \<in> set ver then Inr (map_index offsetDict (major_minor ver))
      else Inl SliceBounds) \<and>
   Offset p = offset p \<and>
   GetGoID_amd64 p (h\<lparr>version := ver'\<rparr>) = GetGoID_amd64 p h"
  by (simp add: offset_init_def version_key_cases Offset_def GetGoID_amd64_def)

text \<open>C8 as stated fails on a version string without a dot: truncating
  \<open>devel +a1b2c3d\<close> to its first two components gives the string itself, and the
  initialiser panics on it.\<close>

theorem version_key_dotless_panics:
  "version_key ''devel +a1b2c3d'' = Inl SliceBounds \<and>
   major_minor ''devel +a1b2c3d'' = ''devel +a1b2c3d''"
  by (simp add: version_key_cases major_minor_def Split_dot_no_dot)

subsection \<open>Repeated calls\<close>

text \<open>C9: on every build, three consecutive calls of \<open>GetGoID\<close> on the same goroutine
  all return, and return the same value. The only condition is on arm64 other than
  Windows, where the file compiles only if the declaration of \<open>g\<close> compiled in has a
  field \<open>goid\<close>; on every other build nothing is assumed.\<close>

theorem GetGoID_three_calls:
  assumes "goarch b = ''arm64'' \<and> goos b \<noteq> ''windows'' \<longrightarrow>
             offsetof (g_decl p) ''goid'' \<noteq> None"
  shows "\<exists>v h1 h2 h3. GetGoID b p h = Some (Inr v, h1) \<and>
           GetGoID b p h1 = Some (Inr v, h2) \<and> GetGoID b p h2 = Some (Inr v, h3)"
proof -
  obtain f where f: "GetGoID_linked b = [f]"
    using GetGoID_linked_cases [of b] by blast
  let ?log = "\<lambda>h. h\<lparr>stack_calls := stack_calls h @ [(128, False)]\<rparr>"
  let ?v = "fst (ParseInt (dec (unat (goid h))))"
  have slow: "getGoIDSlow h' = (Inr (fst (ParseInt (dec (unat (goid h'))))), ?log h')" for h'
    by (simp add: getGoIDSlow_unfold extractGID_snapshot)
  have fast: ?thesis if "fast_offset b p = Some off" for off
  proof -
    have "GetGoID b p h = Some (Inr (mem h (gptr h + off)), h)"
      using that by (rule fast_path_value)
    then show ?thesis by blast
  qed
  have slowcase: ?thesis if s: "\<And>h'. GetGoID b p h' = Some (getGoIDSlow h')"
  proof -
    have "GetGoID b p h = Some (Inr ?v, ?log h)"
      by (simp add: s slow)
    moreover have "GetGoID b p (?log h) = Some (Inr ?v, ?log (?log h))"
      by (simp add: s slow)
    moreover have "GetGoID b p (?log (?log h)) = Some (Inr ?v, ?log (?log (?log h)))"
      by (simp add: s slow)
    ultimately show ?thesis by blast
  qed
  show ?thesis
  proof (cases f)
    case Goid_generic
    then show ?thesis using f by (intro slowcase) (simp add: GetGoID_def)
  next
    case Goid_arm64
    then have "goarch b = ''arm64'' \<and> goos b \<noteq> ''windows''"
      using f GetGoID_linked_cases [of b] by (auto split: if_splits)
    then obtain n where "offsetof (g_decl p) ''goid'' = Some n" using assms by auto
    then show ?thesis
      using f Goid_arm64 by (intro fast [of "of_nat n"]) (simp add: fast_offset_def)
  next
    case Goid_windows_arm64
    then show ?thesis using f by (intro slowcase) (simp add: GetGoID_def)
  next
    case Goid_amd64
    then show ?thesis using f by (intro fast [of "offset p"]) (simp add: fast_offset_def)
  qed
qed

text \<open>C9 on the amd64 fast path, on the arm64 fast path with the go1.25 declaration,
  and on linux/riscv64, where \<open>GetGoID\<close> is the slow path and every call adds a request
  to the log.\<close>

theorem GetGoID_three_calls_witness:
  "GetGoID amd64_go1_25 pkg_amd64_go1_25 host_go1_25 = Some (Inr 7, host_go1_25) \<and>
   offsetof (g_decl pkg_arm64) ''goid'' = Some 152 \<and>
   GetGoID arm64_go1_26 pkg_arm64 host_go1_26 = Some (Inr 7, host_go1_26) \<and>
   (\<exists>h1 h2 h3. GetGoID riscv64_go1_25 pkg_riscv64 host_go1_25 = Some (Inr 7, h1) \<and>
      GetGoID riscv64_go1_25 pkg_riscv64 h1 = Some (Inr 7, h2) \<and>
      GetGoID riscv64_go1_25 pkg_riscv64 h2 = Some (Inr 7, h3))"
proof -
  have o: "offsetof (g_decl pkg_arm64) ''goid'' = Some 152"
    by (simp add: pkg_arm64_def offsetof_g_go1_25)
  have m: "mem host_go1_25 (gptr host_go1_25 + 152) = 7"
    "mem host_go1_26 (gptr host_go1_26 + 152) = 7"
    by (simp_all add: host_go1_25_def host_go1_26_def example_mem_def)
  have fa: "fast_offset amd64_go1_25 pkg_amd64_go1_25 = Some 152"
    by (simp add: fast_offset_def GetGoID_linked_cases amd64_go1_25_def pkg_amd64_go1_25_def)
  have fr: "fast_offset arm64_go1_26 pkg_arm64 = Some 152"
    by (simp add: fast_offset_def GetGoID_linked_cases arm64_go1_26_def o)
  have h1: "goarch amd64_go1_25 = ''arm64'' \<and> goos amd64_go1_25 \<noteq> ''windows'' \<longrightarrow>
      offsetof (g_decl pkg_amd64_go1_25) ''goid'' \<noteq> None"
    by (simp add: amd64_go1_25_def)
  have h2: "goarch arm64_go1_26 = ''arm64'' \<and> goos arm64_go1_26 \<noteq> ''windows'' \<longrightarrow>
      offsetof (g_decl pkg_arm64) ''goid'' \<noteq> None"
    by (simp add: o)
  have h3: "goarch riscv64_go1_25 = ''arm64'' \<and> goos riscv64_go1_25 \<noteq> ''windows'' \<longrightarrow>
      offsetof (g_decl pkg_riscv64) ''goid'' \<noteq> None"
    by (simp add: riscv64_go1_25_def)
  have a: "GetGoID amd64_go1_25 pkg_amd64_go1_25 host_go1_25 = Some (Inr 7, host_go1_25)"
    using GetGoID_three_calls [OF h1, of host_go1_25] fast_path_value [OF fa, of host_go1_25] m
    by simp
  have b: "GetGoID arm64_go1_26 pkg_arm64 host_go1_26 = Some (Inr 7, host_go1_26)"
    using GetGoID_three_calls [OF h2, of host_go1_26] fast_path_value [OF fr, of host_go1_26] m
    by simp
  obtain v k1 k2 k3 where
    c: "GetGoID riscv64_go1_25 pkg_riscv64 host_go1_25 = Some (Inr v, k1)"
      "GetGoID riscv64_go1_25 pkg_riscv64 k1 = Some (Inr v, k2)"
      "GetGoID riscv64_go1_25 pkg_riscv64 k2 = Some (Inr v, k3)"
    using GetGoID_three_calls [OF h3, of host_go1_25] by blast
  have "GetGoID riscv64_go1_25 pkg_riscv64 host_go1_25 = Some (getGoIDSlow host_go1_25)"
    by (simp add: GetGoID_def GetGoID_linked_cases riscv64_go1_25_def)
  moreover have "fst (getGoIDSlow host_go1_25) = Inr 7"
    by (simp add: slow_path_small goid_example_hosts)
  ultimately have "v = 7" using c(1) by (cases "getGoIDSlow host_go1_25") simp
  then show ?thesis using a o b c by blast
qed

subsection \<open>The go1.25 layout and the table\<close>

text \<open>C10: in the go1.25 declaration of \<open>g\<close> with 8-byte pointers the fields before
  \<open>goid\<close> take 152 bytes (the stack bounds 16, the two guards 16, three pointers 24,
  the scheduling buffer 48, three system-call words 24, two more pointers 16, the
  status and the lock 8), the table's
  entry for key \<open>go1.25\<close> is 152 as well, and so the load through the struct field and
  the load through the table entry read the same address.\<close>

theorem go1_25_layout_agrees_with_table:
  "offsetof g_go1_25 ''goid'' = Some 152 \<and>
   layout stack_ty = (16, 8) \<and> layout gobuf_go1_25 = (48, 8) \<and>
   offsetof g_go1_25 ''stackguard0'' = Some 16 \<and> offsetof g_go1_25 ''_panic'' = Some 32 \<and>
   offsetof g_go1_25 ''sched'' = Some 56 \<and> offsetof g_go1_25 ''syscallsp'' = Some 104 \<and>
   offsetof g_go1_25 ''stktopsp'' = Some 128 \<and>
   offsetof g_go1_25 ''atomicstatus'' = Some 144 \<and>
   offsetDict ''go1.25'' = Some 152 \<and>
   GetGoID_arm64 \<lparr>offset = x, g_decl = g_go1_25\<rparr> h =
     Some (GetGoID_amd64 \<lparr>offset = map_index offsetDict ''go1.25'', g_decl = d\<rparr> h)"
  by (simp add: offsetof_g_go1_25 offsetDict_go1_25 GetGoID_arm64_def GetGoID_amd64_def
        getg_def map_index_def)
     (simp add: offsetof_def g_go1_25_def stack_ty_def gobuf_go1_25_def align_up_def)

end
